theory Spec2Isabelle
  imports Complex_Main "HOL-Library.AList"
begin

section \<open>JavaScript values\<close>

text \<open>
  A JavaScript number is a double. Every finite double is a rational, so a finite number
  carries its exact value; negative zero is identified with zero (no function below
  tells them apart). The comparisons, the remainder and the digit selection of
  \<open>toFixed\<close> are exact operations on that value.
\<close>

datatype number = NaN | PosInf | NegInf | Fin rat

text \<open>\<open>a < b\<close> on numbers: false as soon as one side is NaN.\<close>

fun js_lt :: "number \<Rightarrow> number \<Rightarrow> bool" where
  "js_lt NaN _ = False"
| "js_lt _ NaN = False"
| "js_lt PosInf _ = False"
| "js_lt _ PosInf = True"
| "js_lt _ NegInf = False"
| "js_lt NegInf _ = True"
| "js_lt (Fin a) (Fin b) = (a < b)"

text \<open>\<open>a == b\<close> on numbers: NaN equals nothing, itself included.\<close>

fun js_eq :: "number \<Rightarrow> number \<Rightarrow> bool" where
  "js_eq NaN _ = False"
| "js_eq _ NaN = False"
| "js_eq a b = (a = b)"

text \<open>\<open>!value\<close> on a number: true for NaN and for zero.\<close>

fun js_not :: "number \<Rightarrow> bool" where
  "js_not NaN = True"
| "js_not (Fin a) = (a = 0)"
| "js_not _ = False"

text \<open>
  The values found in chart options and dataset attributes: primitives, functions (a
  callback is a leaf, named by the source identifier it is bound to), arrays and plain
  objects. An object lists its own properties in insertion order. \<open>Opaque\<close> stands for
  any other object (a class instance, a canvas gradient, an array that carries named
  properties): the model keeps no structure for it.
\<close>

datatype jv =
    Undef
  | Null
  | Bool bool
  | Num number
  | Str string
  | Fn string
  | Opaque
  | Arr "jv list"
  | Obj "(string \<times> jv) list"

text \<open>A value typed \<open>number | string\<close> (a tick value, a point coordinate, a tick label).\<close>

datatype scalar = N number | S string

section \<open>Chart input\<close>

record ChartPoint =
  pt_x :: scalar
  pt_y :: scalar

text \<open>
  A dataset: the properties the component reads by name (\<open>label\<close>, \<open>borderColor\<close>,
  \<open>data\<close>) and, in \<open>attrs\<close>, every other own property of the object.
\<close>

record ChartDataSets =
  label :: "string option"
  borderColor :: "jv"
  data :: "ChartPoint list"
  attrs :: "string \<rightharpoonup> jv"

record ChartData =
  labels :: "jv"
  datasets :: "ChartDataSets list"

section \<open>Dataset normalisation\<close>

text \<open>
  The defaults written before the spread \<open>...item\<close> in \<open>chartData\<close>:
  \<open>type: ChartKind.BAR, borderWidth: { top: 3 }, barPercentage: 1, categoryPercentage: 1\<close>.
  \<open>ChartKind\<close> is declared in \<open>./chart\<close>; its member \<open>BAR\<close> is the parameter \<open>bar\<close>.
\<close>

definition dataset_defaults :: "jv \<Rightarrow> (string \<rightharpoonup> jv)" where
  "dataset_defaults bar =
     [''type'' \<mapsto> bar,
      ''borderWidth'' \<mapsto> Obj [(''top'', Num (Fin 3))],
      ''barPercentage'' \<mapsto> Num (Fin 1),
      ''categoryPercentage'' \<mapsto> Num (Fin 1)]"

text \<open>
  The object literal \<open>{ type: ..., ..., ...item }\<close>: the properties of \<open>item\<close> are
  copied last, so each one replaces the default of the same name; \<open>label\<close>,
  \<open>borderColor\<close> and \<open>data\<close> have no default and are those of \<open>item\<close>.
\<close>

definition insert_defaults :: "jv \<Rightarrow> ChartDataSets \<Rightarrow> ChartDataSets" where
  "insert_defaults bar item = item\<lparr>attrs := dataset_defaults bar ++ attrs item\<rparr>"

text \<open>
  \<open>chartData\<close>: \<open>{ ...data, datasets: data.datasets.filter(set => set.data.length).map(...) }\<close>.
  A length is truthy exactly when it is not zero.
\<close>

definition chartData :: "jv \<Rightarrow> ChartData \<Rightarrow> ChartData" where
  "chartData bar d =
     d\<lparr>datasets := map (insert_defaults bar) (filter (\<lambda>s. length (data s) \<noteq> 0) (datasets d))\<rparr>"

section \<open>Time-axis labels\<close>

text \<open>\<open>a % b\<close>: the remainder of the division truncated towards zero, computed exactly.\<close>

definition js_trunc :: "rat \<Rightarrow> int" where
  "js_trunc q = (if 0 \<le> q then \<lfloor>q\<rfloor> else \<lceil>q\<rceil>)"

fun js_rem :: "number \<Rightarrow> number \<Rightarrow> number" where
  "js_rem (Fin a) (Fin b) = (if b = 0 then NaN else Fin (a - b * of_int (js_trunc (a / b))))"
| "js_rem (Fin a) PosInf = Fin a"
| "js_rem (Fin a) NegInf = Fin a"
| "js_rem _ _ = NaN"

text \<open>\<open>defaultProps.timeLabelStep\<close>.\<close>

definition defaultProps_timeLabelStep :: number where
  "defaultProps_timeLabelStep = Fin 10"

text \<open>
  \<open>formatTimeLabels\<close>, a closure of \<open>BarChart\<close> over \<open>timeLabelStep\<close>, here an argument.
  The built-in \<open>parseInt\<close> and the library call \<open>moment(n).format("HH:mm")\<close> (the local
  time of day of the instant \<open>n\<close>) are the parameters \<open>parseInt\<close> and \<open>HHmm\<close>. The index is
  the position of the tick, an integer.
\<close>

definition formatTimeLabels ::
  "(string \<Rightarrow> number) \<Rightarrow> (number \<Rightarrow> string) \<Rightarrow> number \<Rightarrow> string \<Rightarrow> int \<Rightarrow> string" where
  "formatTimeLabels parseInt HHmm timeLabelStep timestamp index =
     (let label = HHmm (parseInt timestamp);
          offset = ''     ''
      in if index = 0 then offset @ label
         else if index = 60 then label @ offset
         else if js_eq (js_rem (Fin (of_int index)) timeLabelStep) (Fin 0) then label else '''')"

section \<open>Strings of numbers\<close>

text \<open>
  \<open>String(v)\<close>, \<open>v.toString()\<close> and \<open>`${v}`\<close> for a value typed \<open>number | string\<close>. The
  text of a number (\<open>Number::toString\<close>, the shortest digits that read back as the same
  double) is the parameter \<open>numberToString\<close>.
\<close>

definition js_String :: "(number \<Rightarrow> string) \<Rightarrow> scalar \<Rightarrow> string" where
  "js_String numberToString v = (case v of S s \<Rightarrow> s | N n \<Rightarrow> numberToString n)"

text \<open>The decimal digits of a natural number, without leading zeros.\<close>

definition digits :: string where
  "digits = ''0123456789''"

definition digit :: "nat \<Rightarrow> char" where
  "digit d = digits ! d"

fun decimal :: "nat \<Rightarrow> string" where
  "decimal n = (if n < 10 then [digit n] else decimal (n div 10) @ [digit (n mod 10)])"

declare decimal.simps [simp del]

text \<open>
  \<open>Number.prototype.toFixed(f)\<close>, step by step as the language standard gives it (every
  call below has \<open>f \<le> 100\<close>, so none raises RangeError): a number that is not finite is
  printed by \<open>Number::toString\<close>; the sign is split off; from \<open>10^21\<close> on the magnitude is
  printed by \<open>Number::toString\<close>; below, \<open>n\<close> is the integer nearest to \<open>x * 10^f\<close>, the
  larger one on a tie, its digits are padded with zeros on the left to \<open>f + 1\<close> digits and
  the point is put before the last \<open>f\<close> digits.
\<close>

definition toFixed :: "(number \<Rightarrow> string) \<Rightarrow> number \<Rightarrow> nat \<Rightarrow> string" where
  "toFixed numberToString v f =
     (case v of
        Fin x0 \<Rightarrow>
          (let s = (if x0 < 0 then ''-'' else '''');
               x = \<bar>x0\<bar>
           in if x \<ge> 10 ^ 21 then s @ numberToString (Fin x)
              else
                (let n = nat \<lfloor>x * 10 ^ f + 1 / 2\<rfloor>;
                     m = decimal n
                 in if f \<noteq> 0 then
                      (let k = length m;
                           m' = (if k \<le> f then replicate (f + 1 - k) (CHR ''0'') @ m else m);
                           k' = (if k \<le> f then f + 1 else k);
                           a = take (k' - f) m';
                           b = drop (k' - f) m'
                       in s @ a @ ''.'' @ b)
                    else s @ m))
      | _ \<Rightarrow> numberToString v)"

text \<open>
  The characters after the last point of a string, and whether a string ends in a point
  followed by exactly \<open>f\<close> decimal digits.
\<close>

definition fraction_part :: "string \<Rightarrow> string" where
  "fraction_part s = rev (takeWhile (\<lambda>c. c \<noteq> CHR ''.'') (rev s))"

definition has_decimals :: "nat \<Rightarrow> string \<Rightarrow> bool" where
  "has_decimals f s =
     (length (fraction_part s) = f \<and> f < length s \<and> list_all (\<lambda>c. c \<in> set digits) (fraction_part s))"

text \<open>
  The text \<open>toFixed\<close> is to give below \<open>10^21\<close>, in closed form: the sign, the digits of
  the integer part and, for \<open>f > 0\<close>, a point and the \<open>f\<close> digits of the fraction, all of
  them digits of \<open>n\<close>, the integer nearest to \<open>\<bar>x\<bar> * 10^f\<close> (the larger one on a tie).
  \<open>fixed_digits f b\<close> are the last \<open>f\<close> decimal digits of \<open>b\<close>, leading zeros included.
\<close>

fun fixed_digits :: "nat \<Rightarrow> nat \<Rightarrow> string" where
  "fixed_digits 0 b = []"
| "fixed_digits (Suc f) b = fixed_digits f (b div 10) @ [digit (b mod 10)]"

definition fixed_text :: "rat \<Rightarrow> nat \<Rightarrow> string" where
  "fixed_text x f =
     (let n = nat \<lfloor>\<bar>x\<bar> * 10 ^ f + 1 / 2\<rfloor>
      in (if x < 0 then ''-'' else '''') @ decimal (n div 10 ^ f) @
         (if f = 0 then '''' else ''.'' @ fixed_digits f (n mod 10 ^ f)))"

text \<open>
  Reading a text in fixed notation back as a number: an optional minus sign, the digits
  before the point and the digits after it.
\<close>

definition digit_value :: "char \<Rightarrow> nat" where
  "digit_value c = length (takeWhile (\<lambda>d. d \<noteq> c) digits)"

definition natural :: "string \<Rightarrow> nat" where
  "natural s = foldl (\<lambda>a c. 10 * a + digit_value c) 0 s"

definition read_decimal :: "string \<Rightarrow> rat" where
  "read_decimal s =
     (let negative = (take 1 s = ''-'');
          t = (if negative then drop 1 s else s);
          whole = takeWhile (\<lambda>c. c \<noteq> CHR ''.'') t;
          fraction = drop (length whole + 1) t;
          q = of_nat (natural whole) + of_nat (natural fraction) / 10 ^ length fraction
      in if negative then - q else q)"

section \<open>Tooltips and value-axis ticks\<close>

datatype error = TypeError | Error

record ChartTooltipItem =
  xLabel :: scalar
  tip_datasetIndex :: nat
  tip_index :: nat

text \<open>
  \<open>new Date(v).getTime()\<close>. For a number the standard clips the time value: NaN when it
  is not finite or beyond \<open>8.64e15\<close> in magnitude, its integer part otherwise. For a string
  the date is parsed; \<open>Date.parse\<close> is the parameter \<open>Date_parse\<close>.
\<close>

definition TimeClip :: "number \<Rightarrow> number" where
  "TimeClip t =
     (case t of
        Fin x \<Rightarrow> if \<bar>x\<bar> > 8640000000000000 then NaN else Fin (of_int (js_trunc x))
      | _ \<Rightarrow> NaN)"

definition Date_getTime :: "(string \<Rightarrow> number) \<Rightarrow> scalar \<Rightarrow> number" where
  "Date_getTime Date_parse v = (case v of N n \<Rightarrow> TimeClip n | S s \<Rightarrow> Date_parse s)"

text \<open>
  \<open>tooltips.callbacks.title\<close>. The wall clock read by \<open>new Date().getTime()\<close> is the
  argument \<open>now\<close>, in milliseconds. Reading \<open>tooltipItems[0].xLabel\<close> of an empty list
  raises TypeError.
\<close>

definition tooltips_title ::
  "(number \<Rightarrow> string) \<Rightarrow> (string \<Rightarrow> number) \<Rightarrow> int \<Rightarrow> ChartTooltipItem list \<Rightarrow> error + string" where
  "tooltips_title numberToString Date_parse now tooltipItems =
     (case tooltipItems of
        [] \<Rightarrow> Inl TypeError
      | item # _ \<Rightarrow>
          if js_lt (Fin (of_int now)) (Date_getTime Date_parse (xLabel item)) then Inr ''''
          else Inr (js_String numberToString (xLabel item)))"

text \<open>
  \<open>memoryOptions.scales.yAxes[0].ticks.callback\<close>. The callback returns the number 0 or a
  string. The built-in \<open>parseFloat\<close> and the byte-unit scaler \<open>bytesToUnits\<close> of \<open>../../utils\<close>
  (a value and an optional precision) are parameters.
\<close>

definition memoryOptions_ticks_callback ::
  "(number \<Rightarrow> string) \<Rightarrow> (string \<Rightarrow> number) \<Rightarrow> (number \<Rightarrow> nat option \<Rightarrow> string) \<Rightarrow> scalar \<Rightarrow> jv" where
  "memoryOptions_ticks_callback numberToString parseFloat bytesToUnits value0 =
     (let value = parseFloat (js_String numberToString value0)
      in if js_not value then Num (Fin 0)
         else if js_lt value (Fin 1) then Str (toFixed numberToString value 3)
         else Str (bytesToUnits value None))"

text \<open>\<open>cpuOptions.scales.yAxes[0].ticks.callback\<close>, on a value typed \<open>number\<close>.\<close>

definition cpuOptions_ticks_callback :: "(number \<Rightarrow> string) \<Rightarrow> number \<Rightarrow> jv" where
  "cpuOptions_ticks_callback numberToString value =
     (if js_eq value (Fin 0) then Num (Fin 0)
      else if js_lt value (Fin 10) then Str (toFixed numberToString value 3)
      else if js_lt value (Fin 100) then Str (toFixed numberToString value 2)
      else Str (toFixed numberToString value 1))"





subsection \<open>The byte-unit scaler\<close>

text \<open>
  Modelled from the spec: \<open>bytesToUnits\<close> is imported from \<open>../../utils\<close>, a file that is not
  among the sources. The spec gives its signature, \<open>(numericValue, precision?) \<rightarrow>
  displayString\<close>, the units (bytes, KB, MB, GB, "with appropriate suffix"), the example
  \<open>2048 \<rightarrow> "2 KB"\<close> and, for the precision 3 of the tooltip, "3 significant digits". The
  model: the value is divided by 1024 as long as it is 1024 or more and a larger unit is
  left; the text is the scaled number, a space and the unit; the number is printed as
  \<open>Number::toString\<close> prints it when no precision is given, and with \<open>precision\<close>
  significant digits (\<open>toPrecision\<close>) otherwise. The callbacks above take the scaler as a
  parameter; this model is one scaler to pass them.
\<close>

definition utils_bytesToUnits ::
  "(number \<Rightarrow> string) \<Rightarrow> (number \<Rightarrow> nat \<Rightarrow> string) \<Rightarrow> number \<Rightarrow> nat option \<Rightarrow> string" where
  "utils_bytesToUnits numberToString toPrecision bytes precision =
     (let i = (case bytes of
                 Fin x \<Rightarrow> (if x < 1024 then 0 else if x < 1024 ^ 2 then 1 else if x < 1024 ^ 3 then 2 else 3)
               | PosInf \<Rightarrow> 3
               | _ \<Rightarrow> (0 :: nat));
          scaled = (case bytes of Fin x \<Rightarrow> Fin (x / 1024 ^ i) | _ \<Rightarrow> bytes);
          printed = (case precision of None \<Rightarrow> numberToString scaled | Some p \<Rightarrow> toPrecision scaled p)
      in printed @ '' '' @ [''B'', ''KB'', ''MB'', ''GB''] ! i)"

section \<open>Fill colour\<close>

text \<open>
  \<open>getBarColor\<close>: \<open>Color(dataset.borderColor).alpha(0.2).string()\<close>. \<open>Color\<close> is the
  \<open>color\<close> library, outside the repository. A colour object holds its colour model, its
  channels in that model and its opacity. The constructor, which throws an Error on a
  value it cannot read, and the serialiser are the parameters \<open>Color_new\<close> and
  \<open>Color_string\<close>; \<open>alpha(val)\<close> builds a colour of the same model and channels whose
  opacity is \<open>val\<close> clamped to the unit interval.
\<close>

record Color =
  color_model :: string
  color_channels :: "rat list"
  valpha :: rat

definition Color_alpha :: "Color \<Rightarrow> rat \<Rightarrow> Color" where
  "Color_alpha c val = c\<lparr>valpha := max 0 (min 1 val)\<rparr>"

definition getBarColor :: "(jv \<Rightarrow> Color option) \<Rightarrow> (Color \<Rightarrow> string) \<Rightarrow> ChartDataSets \<Rightarrow> error + string" where
  "getBarColor Color_new Color_string dataset =
     (case Color_new (borderColor dataset) of
        None \<Rightarrow> Inl Error
      | Some color \<Rightarrow> Inr (Color_string (Color_alpha color (2 / 10))))"

section \<open>Merging caller options over the defaults\<close>





section \<open>The component\<close>









section \<open>Reading an options tree\<close>

text \<open>
  A path into a tree is a list of steps, a property name into an object or an index into
  an array. \<open>lookup\<close> follows a path and fails when a step finds nothing.
\<close>

datatype key = Key string | Index nat

fun get_key :: "jv \<Rightarrow> key \<Rightarrow> jv option" where
  "get_key (Obj kvs) (Key k) = map_of kvs k"
| "get_key (Arr xs) (Index i) = (if i < length xs then Some (xs ! i) else None)"
| "get_key _ _ = None"

fun lookup :: "jv option \<Rightarrow> key list \<Rightarrow> jv option" where
  "lookup v [] = v"
| "lookup None (k # p) = None"
| "lookup (Some v) (k # p) = lookup (get_key v k) p"







section \<open>Example inputs\<close>





text \<open>
  The built-ins at the values the examples use. \<open>Number::toString\<close> prints NaN and the
  infinities by name, an integer of at most \<open>2^53\<close> in magnitude by its digits, one half as
  \<open>0.5\<close> and \<open>10^21\<close> in exponent notation; at any other number, where no example calls it,
  the table has the empty string. \<open>parseFloat\<close> reads these texts back, and gives NaN for a
  text that does not start as a number.
\<close>

definition example_numberToString :: "number \<Rightarrow> string" where
  "example_numberToString v =
     (case v of
        NaN \<Rightarrow> ''NaN''
      | PosInf \<Rightarrow> ''Infinity''
      | NegInf \<Rightarrow> ''-Infinity''
      | Fin q \<Rightarrow>
          if q = 10 ^ 21 then ''1e+21''
          else if q = - (10 ^ 21) then ''-1e+21''
          else if q = 1 / 2 then ''0.5''
          else if of_int \<lfloor>q\<rfloor> = q \<and> \<bar>q\<bar> \<le> 2 ^ 53 then (if q < 0 then ''-'' else '''') @ decimal (nat \<bar>\<lfloor>q\<rfloor>\<bar>)
          else '''')"

definition example_parseFloat :: "string \<Rightarrow> number" where
  "example_parseFloat s =
     (if s = ''0.5'' then Fin (1 / 2)
      else if s = ''1e+21'' then Fin (10 ^ 21)
      else if s = ''-1e+21'' then Fin (- (10 ^ 21))
      else if s \<noteq> [] \<and> list_all (\<lambda>c. c \<in> set digits) s then Fin (of_nat (natural s))
      else NaN)"

section \<open>Properties of the normaliser\<close>

lemma insert_defaults_fields:
  "label (insert_defaults bar item) = label item"
  "borderColor (insert_defaults bar item) = borderColor item"
  "data (insert_defaults bar item) = data item"
  by (simp_all add: insert_defaults_def)

lemma insert_defaults_attrs:
  "attrs (insert_defaults bar item) k =
     (case attrs item k of Some v \<Rightarrow> Some v | None \<Rightarrow> dataset_defaults bar k)"
  by (simp add: insert_defaults_def map_add_def)

text \<open>
  Claim C1. The normalised datasets are the input datasets that have at least one point,
  in the input order. Each one keeps its label, its border colour and its points, and
  each of its attributes is the caller's value when the caller gave one and the default
  otherwise, where the defaults are \<open>barPercentage = 1\<close>, \<open>categoryPercentage = 1\<close>,
  \<open>borderWidth = {top: 3}\<close> and the bar chart kind. No dataset without points is left.
\<close>

theorem chartData_normalised:
  "list_all2
     (\<lambda>out item.
        data out = data item \<and> label out = label item \<and> borderColor out = borderColor item \<and>
        (\<forall>k. attrs out k = (case attrs item k of Some v \<Rightarrow> Some v | None \<Rightarrow> dataset_defaults bar k)))
     (datasets (chartData bar d))
     (filter (\<lambda>s. data s \<noteq> []) (datasets d))
   \<and> dataset_defaults bar ''barPercentage'' = Some (Num (Fin 1))
   \<and> dataset_defaults bar ''categoryPercentage'' = Some (Num (Fin 1))
   \<and> dataset_defaults bar ''borderWidth'' = Some (Obj [(''top'', Num (Fin 3))])
   \<and> list_all (\<lambda>out. data out \<noteq> []) (datasets (chartData bar d))"
proof -
  have "list_all2
     (\<lambda>out item.
        data out = data item \<and> label out = label item \<and> borderColor out = borderColor item \<and>
        (\<forall>k. attrs out k = (case attrs item k of Some v \<Rightarrow> Some v | None \<Rightarrow> dataset_defaults bar k)))
     (map (insert_defaults bar) xs) xs" for xs
    by (induction xs) (simp_all add: insert_defaults_fields insert_defaults_attrs)
  moreover have "list_all (\<lambda>out. data out \<noteq> []) (datasets (chartData bar d))"
    by (simp add: chartData_def list_all_iff insert_defaults_fields)
  ultimately show ?thesis
    by (simp add: chartData_def dataset_defaults_def)
qed

section \<open>Properties of the time-axis labels\<close>

lemma js_trunc_of_int [simp]: "js_trunc (of_int k) = k"
  by (simp add: js_trunc_def)

lemma js_rem_zero_iff:
  assumes "b \<noteq> 0"
  shows "a - b * of_int (js_trunc (a / b)) = 0 \<longleftrightarrow> (\<exists>k::int. a = of_int k * b)"
proof
  assume "a - b * of_int (js_trunc (a / b)) = 0"
  then have "a = of_int (js_trunc (a / b)) * b" by (simp add: mult.commute)
  then show "\<exists>k::int. a = of_int k * b" ..
next
  assume "\<exists>k::int. a = of_int k * b"
  then obtain k :: int where k: "a = of_int k * b" ..
  with assms have "a / b = of_int k" by simp
  then have "js_trunc (a / b) = k" by simp
  with k show "a - b * of_int (js_trunc (a / b)) = 0" by (simp add: mult.commute)
qed

lemma js_rem_multiple:
  assumes "index \<noteq> 0"
  shows "js_eq (js_rem (Fin (of_int index)) step) (Fin 0) \<longleftrightarrow>
         (\<exists>s (k::int). step = Fin s \<and> of_int index = of_int k * s)"
proof (cases step)
  case (Fin s)
  show ?thesis
  proof (cases "s = 0")
    case True
    with Fin assms show ?thesis by simp
  next
    case False
    with Fin js_rem_zero_iff [of s "of_int index"] show ?thesis by simp
  qed
next
  case PosInf
  with assms show ?thesis by simp
next
  case NegInf
  with assms show ?thesis by simp
qed simp

text \<open>
  Claim C3. At index 0 the label is the \<open>HH:mm\<close> text after five spaces; at index 60 it
  is the \<open>HH:mm\<close> text before five spaces; the two edge rules come first, in that order.
  At any other index the label is the bare \<open>HH:mm\<close> text when the index is an exact
  multiple of the label step, and empty otherwise. With the default step, 10, index 25
  gives the empty string and index 30 the bare text.
\<close>

theorem formatTimeLabels_rules:
  "formatTimeLabels parseInt HHmm step ts index =
     (if index = 0 then ''     '' @ HHmm (parseInt ts)
      else if index = 60 then HHmm (parseInt ts) @ ''     ''
      else if (\<exists>s (k::int). step = Fin s \<and> of_int index = of_int k * s) then HHmm (parseInt ts)
      else '''')
   \<and> defaultProps_timeLabelStep = Fin 10
   \<and> formatTimeLabels parseInt HHmm defaultProps_timeLabelStep ts 25 = ''''
   \<and> formatTimeLabels parseInt HHmm defaultProps_timeLabelStep ts 30 = HHmm (parseInt ts)"
proof -
  have general: "formatTimeLabels parseInt HHmm step ts index =
     (if index = 0 then ''     '' @ HHmm (parseInt ts)
      else if index = 60 then HHmm (parseInt ts) @ ''     ''
      else if (\<exists>s (k::int). step = Fin s \<and> of_int index = of_int k * s) then HHmm (parseInt ts)
      else '''')"
    using js_rem_multiple [of index step]
    by (simp add: formatTimeLabels_def Let_def)
  have "js_trunc (25 / 10) = 2" "js_trunc (30 / 10) = 3"
    by (simp_all add: js_trunc_def floor_eq_iff)
  then have "formatTimeLabels parseInt HHmm defaultProps_timeLabelStep ts 25 = ''''"
    and "formatTimeLabels parseInt HHmm defaultProps_timeLabelStep ts 30 = HHmm (parseInt ts)"
    by (simp_all add: formatTimeLabels_def defaultProps_timeLabelStep_def)
  with general show ?thesis
    by (simp add: defaultProps_timeLabelStep_def)
qed

section \<open>Properties of the number formats\<close>

lemma digit_in: "d < 10 \<Longrightarrow> digit d \<in> set digits"
  unfolding digit_def by (rule nth_mem) (simp add: digits_def)

lemma point_not_digit: "CHR ''.'' \<notin> set digits"
  by (simp add: digits_def)

lemma decimal_digits: "set (decimal n) \<subseteq> set digits"
proof (induction n rule: decimal.induct)
  case (1 n)
  show ?case
  proof (cases "n < 10")
    case True
    then show ?thesis using digit_in [of n] by (subst decimal.simps) simp
  next
    case False
    with 1 digit_in [of "n mod 10"] show ?thesis
      by (subst decimal.simps) simp
  qed
qed

lemma fraction_part_point:
  assumes "CHR ''.'' \<notin> set b"
  shows "fraction_part (a @ ''.'' @ b) = b"
proof -
  have "takeWhile (\<lambda>c. c \<noteq> CHR ''.'') (rev b @ CHR ''.'' # rev a) = rev b"
    using assms by (induction b rule: rev_induct) auto
  then show ?thesis by (simp add: fraction_part_def)
qed

lemma has_decimals_point:
  assumes "length b = f" and "set b \<subseteq> set digits"
  shows "has_decimals f (a @ ''.'' @ b)"
proof -
  from assms(2) point_not_digit have "CHR ''.'' \<notin> set b" by blast
  then have "fraction_part (a @ ''.'' @ b) = b" by (rule fraction_part_point)
  moreover from assms(2) have "list_all (\<lambda>c. c \<in> set digits) b"
    unfolding list_all_iff by blast
  ultimately show ?thesis
    using assms(1) by (simp add: has_decimals_def)
qed

lemma toFixed_unfold:
  assumes "\<bar>x\<bar> < 10 ^ 21" and "f \<noteq> 0"
  shows "toFixed numberToString (Fin x) f =
    (let s = (if x < 0 then ''-'' else '''');
         m = decimal (nat \<lfloor>\<bar>x\<bar> * 10 ^ f + 1 / 2\<rfloor>);
         k = length m;
         m' = (if k \<le> f then replicate (f + 1 - k) (CHR ''0'') @ m else m);
         k' = (if k \<le> f then f + 1 else k)
     in (s @ take (k' - f) m') @ ''.'' @ drop (k' - f) m')"
proof -
  from assms(1) have "\<not> 10 ^ 21 \<le> \<bar>x\<bar>" by (simp only: not_le)
  with assms(2) show ?thesis
    unfolding toFixed_def Let_def by (simp only: number.case if_False if_True not_False_eq_True append_assoc)
qed

lemma length_fixed_digits [simp]: "length (fixed_digits f b) = f"
  by (induction f arbitrary: b) simp_all

lemma fixed_digits_digits: "set (fixed_digits f b) \<subseteq> set digits"
  by (induction f arbitrary: b) (simp_all add: digit_in)

lemma decimal_nonempty: "decimal n \<noteq> []"
  by (subst decimal.simps) simp

lemma decimal_small: "n < 10 \<Longrightarrow> decimal n = [digit n]"
  by (subst decimal.simps) simp

lemma decimal_large: "10 \<le> n \<Longrightarrow> decimal n = decimal (n div 10) @ [digit (n mod 10)]"
  by (subst decimal.simps) simp

lemma fixed_digits_zero: "fixed_digits f 0 = replicate f (digit 0)"
  by (induction f) (simp_all add: replicate_append_same)

lemma decimal_split:
  assumes "0 < a" and "b < 10 ^ f"
  shows "decimal (a * 10 ^ f + b) = decimal a @ fixed_digits f b"
  using assms(2)
proof (induction f arbitrary: b)
  case 0
  then show ?case by simp
next
  case (Suc f)
  let ?n = "a * 10 ^ Suc f + b"
  from assms(1) have "10 ^ Suc f \<le> a * 10 ^ Suc f" by simp
  then have big: "10 \<le> ?n" by (simp add: trans_le_add1)
  have n: "?n = 10 * (a * 10 ^ f) + b" by simp
  have d: "?n div 10 = a * 10 ^ f + b div 10" and m: "?n mod 10 = b mod 10"
    unfolding n by simp_all
  from Suc.prems have "b div 10 < 10 ^ f"
    by (simp add: less_mult_imp_div_less mult.commute)
  then have "decimal (a * 10 ^ f + b div 10) = decimal a @ fixed_digits f (b div 10)"
    by (rule Suc.IH)
  with big d m show ?case
    by (simp add: decimal_large)
qed

lemma decimal_padded:
  assumes "b < 10 ^ Suc f"
  shows "length (decimal b) \<le> Suc f \<and>
         replicate (Suc f - length (decimal b)) (digit 0) @ decimal b = fixed_digits (Suc f) b"
  using assms
proof (induction f arbitrary: b)
  case 0
  then show ?case by (simp add: decimal_small)
next
  case (Suc f)
  show ?case
  proof (cases "b < 10")
    case True
    then show ?thesis
      by (simp add: decimal_small fixed_digits_zero replicate_append_same)
  next
    case False
    from Suc.prems have "b div 10 < 10 ^ Suc f"
      by (simp add: less_mult_imp_div_less mult.commute)
    then have "length (decimal (b div 10)) \<le> Suc f \<and>
        replicate (Suc f - length (decimal (b div 10))) (digit 0) @ decimal (b div 10)
          = fixed_digits (Suc f) (b div 10)"
      by (rule Suc.IH)
    with False show ?thesis
      by (simp add: decimal_large Suc_diff_le)
  qed
qed

lemma decimal_long:
  assumes "10 ^ f \<le> n"
  shows "decimal n = decimal (n div 10 ^ f) @ fixed_digits f (n mod 10 ^ f)"
proof -
  from assms have "0 < n div 10 ^ f" by (simp add: div_greater_zero_iff)
  moreover have "n mod 10 ^ f < 10 ^ f" by simp
  ultimately have "decimal ((n div 10 ^ f) * 10 ^ f + n mod 10 ^ f)
      = decimal (n div 10 ^ f) @ fixed_digits f (n mod 10 ^ f)"
    by (rule decimal_split)
  then show ?thesis by (simp only: div_mult_mod_eq)
qed

lemma decimal_0: "decimal 0 = [digit 0]"
  by (simp add: decimal_small)

lemma digit_0: "digit 0 = CHR ''0''"
  by (simp add: digit_def digits_def)

lemma toFixed_integer:
  assumes "\<bar>x\<bar> < 10 ^ 21"
  shows "toFixed numberToString (Fin x) 0 = fixed_text x 0"
proof -
  from assms have "\<not> 10 ^ 21 \<le> \<bar>x\<bar>" by (simp only: not_le)
  then have "toFixed numberToString (Fin x) 0
      = (if x < 0 then ''-'' else '''') @ decimal (nat \<lfloor>\<bar>x\<bar> * 10 ^ 0 + 1 / 2\<rfloor>)"
    unfolding toFixed_def Let_def
    by (simp only: number.case if_False if_True not_False_eq_True append_assoc simp_thms)
  moreover have "fixed_text x 0
      = (if x < 0 then ''-'' else '''') @ decimal (nat \<lfloor>\<bar>x\<bar> * 10 ^ 0 + 1 / 2\<rfloor>)"
    unfolding fixed_text_def Let_def
    by (simp only: if_True power_0 div_by_1 append_Nil2 simp_thms)
  ultimately show ?thesis by (simp only:)
qed

lemma toFixed_fixed_text:
  assumes "\<bar>x\<bar> < 10 ^ 21"
  shows "toFixed numberToString (Fin x) f = fixed_text x f"
proof (cases "f = 0")
  case True
  with assms show ?thesis by (simp only: toFixed_integer)
next
  case False
  then obtain g where f: "f = Suc g" by (cases f) simp_all
  define s where "s = (if x < 0 then ''-'' else '''')"
  define n where "n = nat \<lfloor>\<bar>x\<bar> * 10 ^ f + 1 / 2\<rfloor>"
  define m where "m = decimal n"
  define m' where "m' = (if length m \<le> f then replicate (f + 1 - length m) (CHR ''0'') @ m else m)"
  define k' where "k' = (if length m \<le> f then f + 1 else length m)"
  have unfold: "toFixed numberToString (Fin x) f = (s @ take (k' - f) m') @ ''.'' @ drop (k' - f) m'"
    unfolding toFixed_unfold [OF assms False] Let_def s_def n_def m_def m'_def k'_def ..
  have split: "take (k' - f) m' = decimal (n div 10 ^ f) \<and> drop (k' - f) m' = fixed_digits f (n mod 10 ^ f)"
  proof (cases "n < 10 ^ f")
    case True
    with f have pad: "length m \<le> f" "replicate (f - length m) (digit 0) @ m = fixed_digits f n"
      using decimal_padded [of n g] by (simp_all add: m_def)
    from pad(1) have "f + 1 - length m = Suc (f - length m)" by simp
    with pad(1) have "m' = digit 0 # (replicate (f - length m) (digit 0) @ m)"
      by (simp only: m'_def digit_0 if_True replicate_Suc append_Cons)
    with pad(2) have "m' = digit 0 # fixed_digits f n" by (simp only:)
    moreover from pad(1) have "k' - f = Suc 0" by (simp add: k'_def)
    moreover from True have "n div 10 ^ f = 0" "n mod 10 ^ f = n" by simp_all
    ultimately show ?thesis
      by (simp add: decimal_0)
  next
    case False
    then have ge: "10 ^ f \<le> n" by simp
    then have long: "m = decimal (n div 10 ^ f) @ fixed_digits f (n mod 10 ^ f)"
      unfolding m_def by (rule decimal_long)
    then have len: "length m = length (decimal (n div 10 ^ f)) + f" by simp
    moreover have "decimal (n div 10 ^ f) \<noteq> []" by (rule decimal_nonempty)
    ultimately have long': "\<not> length m \<le> f" by (cases "decimal (n div 10 ^ f)") simp_all
    then have "m' = m" "k' = length m" by (simp_all only: m'_def k'_def if_False)
    with len have "m' = decimal (n div 10 ^ f) @ fixed_digits f (n mod 10 ^ f)"
      "k' - f = length (decimal (n div 10 ^ f))" using long by simp_all
    then show ?thesis by simp
  qed
  have "fixed_text x f = s @ decimal (n div 10 ^ f) @ ''.'' @ fixed_digits f (n mod 10 ^ f)"
    unfolding fixed_text_def Let_def s_def n_def using \<open>f \<noteq> 0\<close> by (simp only: if_False)
  with split show ?thesis
    unfolding unfold by (simp only: append_assoc)
qed

lemma digit_value_digit: "d < 10 \<Longrightarrow> digit_value (digit d) = d"
proof -
  assume "d < 10"
  then have "d = 0 \<or> d = 1 \<or> d = 2 \<or> d = 3 \<or> d = 4 \<or> d = 5 \<or> d = 6 \<or> d = 7 \<or> d = 8 \<or> d = 9"
    by presburger
  then show ?thesis
    by (elim disjE) (simp_all add: digit_value_def digit_def digits_def)
qed

lemma natural_snoc: "natural (s @ [c]) = 10 * natural s + digit_value c"
  by (simp add: natural_def)

lemma natural_append: "natural (a @ b) = natural a * 10 ^ length b + natural b"
proof (induction b rule: rev_induct)
  case Nil
  then show ?case by (simp add: natural_def)
next
  case (snoc c b)
  have "natural (a @ b @ [c]) = 10 * natural (a @ b) + digit_value c"
    using natural_snoc [of "a @ b" c] by simp
  with snoc show ?case
    by (simp add: natural_snoc algebra_simps)
qed

lemma natural_decimal: "natural (decimal n) = n"
proof (induction n rule: decimal.induct)
  case (1 n)
  show ?case
  proof (cases "n < 10")
    case True
    then show ?thesis
      using natural_snoc [of "[]" "digit n"] by (simp add: decimal_small digit_value_digit natural_def)
  next
    case False
    with 1 have "natural (decimal (n div 10)) = n div 10" by simp
    with False show ?thesis
      by (simp add: decimal_large natural_snoc digit_value_digit)
  qed
qed

lemma natural_fixed_digits: "b < 10 ^ f \<Longrightarrow> natural (fixed_digits f b) = b"
proof (induction f arbitrary: b)
  case 0
  then show ?case by (simp add: natural_def)
next
  case (Suc f)
  from Suc.prems have "b div 10 < 10 ^ f"
    by (simp add: less_mult_imp_div_less mult.commute)
  then have "natural (fixed_digits f (b div 10)) = b div 10" by (rule Suc.IH)
  then show ?case
    by (simp add: natural_snoc digit_value_digit)
qed

lemma minus_not_digit: "CHR ''-'' \<notin> set digits"
  by (simp add: digits_def)

lemma takeWhile_point:
  assumes "set a \<subseteq> set digits"
  shows "takeWhile (\<lambda>c. c \<noteq> CHR ''.'') (a @ ''.'' @ b) = a"
proof -
  from assms point_not_digit have "\<forall>c\<in>set a. c \<noteq> CHR ''.''" by blast
  then show ?thesis by (simp add: takeWhile_append2)
qed

lemma takeWhile_digits:
  assumes "set a \<subseteq> set digits"
  shows "takeWhile (\<lambda>c. c \<noteq> CHR ''.'') a = a"
proof -
  from assms point_not_digit have "\<forall>c\<in>set a. c \<noteq> CHR ''.''" by blast
  then show ?thesis by simp
qed

lemma read_decimal_unsigned:
  assumes "set a \<subseteq> set digits" and "a \<noteq> []"
  shows "read_decimal (a @ ''.'' @ b) = of_nat (natural a) + of_nat (natural b) / 10 ^ length b"
    and "read_decimal a = of_nat (natural a)"
    and "read_decimal (''-'' @ a @ ''.'' @ b) = - (of_nat (natural a) + of_nat (natural b) / 10 ^ length b)"
    and "read_decimal (''-'' @ a) = - of_nat (natural a)"
proof -
  from assms obtain c cs where a: "a = c # cs" by (cases a) simp_all
  with assms(1) minus_not_digit have c: "c \<noteq> CHR ''-''" by auto
  have tw: "takeWhile (\<lambda>c. c \<noteq> CHR ''.'') (a @ ''.'' @ b) = a"
    using assms(1) by (rule takeWhile_point)
  have tw': "takeWhile (\<lambda>c. c \<noteq> CHR ''.'') a = a"
    using assms(1) by (rule takeWhile_digits)
  have neg: "take 1 (a @ ''.'' @ b) \<noteq> ''-''" "take 1 a \<noteq> ''-''"
    using c by (simp_all add: a)
  show "read_decimal (a @ ''.'' @ b) = of_nat (natural a) + of_nat (natural b) / 10 ^ length b"
    unfolding read_decimal_def Let_def using neg(1) by (simp only: if_False tw) simp
  show "read_decimal a = of_nat (natural a)"
    unfolding read_decimal_def Let_def using neg(2) by (simp only: if_False tw') (simp add: natural_def)
  have m: "take 1 (''-'' @ x) = ''-''" "drop 1 (''-'' @ x) = x" for x :: string
    by simp_all
  show "read_decimal (''-'' @ a @ ''.'' @ b) = - (of_nat (natural a) + of_nat (natural b) / 10 ^ length b)"
    unfolding read_decimal_def Let_def by (simp only: m if_True tw simp_thms) simp
  show "read_decimal (''-'' @ a) = - of_nat (natural a)"
    unfolding read_decimal_def Let_def by (simp only: m if_True tw' simp_thms) (simp add: natural_def)
qed

lemma read_decimal_fixed_text:
  "read_decimal (fixed_text x f) =
     (if x < 0 then - 1 else 1) * of_int \<lfloor>\<bar>x\<bar> * 10 ^ f + 1 / 2\<rfloor> / 10 ^ f"
proof -
  define n where "n = nat \<lfloor>\<bar>x\<bar> * 10 ^ f + 1 / 2\<rfloor>"
  define a where "a = decimal (n div 10 ^ f)"
  define b where "b = fixed_digits f (n mod 10 ^ f)"
  have "0 \<le> \<bar>x\<bar> * 10 ^ f + 1 / 2" by simp
  then have "0 \<le> \<lfloor>\<bar>x\<bar> * 10 ^ f + 1 / 2\<rfloor>" by (simp only: zero_le_floor)
  then have n: "of_int \<lfloor>\<bar>x\<bar> * 10 ^ f + 1 / 2\<rfloor> = (of_nat n :: rat)"
    unfolding n_def by simp
  have a: "set a \<subseteq> set digits" "a \<noteq> []" "natural a = n div 10 ^ f"
    unfolding a_def by (simp_all add: decimal_digits decimal_nonempty natural_decimal)
  have b: "natural b = n mod 10 ^ f" "length b = f"
    unfolding b_def by (simp_all add: natural_fixed_digits)
  have split: "(of_nat (n div 10 ^ f) :: rat) + of_nat (n mod 10 ^ f) / 10 ^ f = of_nat n / 10 ^ f"
  proof -
    have "(of_nat n :: rat) = of_nat (n div 10 ^ f * 10 ^ f + n mod 10 ^ f)"
      by (simp only: div_mult_mod_eq)
    also have "\<dots> = of_nat (n div 10 ^ f) * 10 ^ f + of_nat (n mod 10 ^ f)"
      by simp
    finally show ?thesis by (simp add: add_divide_distrib)
  qed
  have shape: "fixed_text x f = (if x < 0 then ''-'' else '''') @ a @ (if f = 0 then '''' else ''.'' @ b)"
    unfolding fixed_text_def Let_def n_def a_def b_def ..
  show ?thesis
  proof (cases "f = 0")
    case True
    then show ?thesis
      unfolding shape n using read_decimal_unsigned(2,4) [OF a(1,2)] a(3)
      by (simp del: append.simps(2))
  next
    case False
    then show ?thesis
      unfolding shape n using read_decimal_unsigned(1,3) [OF a(1,2), of b] a(3) b split
      by (simp del: append.simps(2))
  qed
qed

lemma has_decimals_fixed_text:
  assumes "f \<noteq> 0"
  shows "has_decimals f (fixed_text x f)"
proof -
  have "has_decimals f (((if x < 0 then ''-'' else '''') @
      decimal (nat \<lfloor>\<bar>x\<bar> * 10 ^ f + 1 / 2\<rfloor> div 10 ^ f)) @ ''.'' @
      fixed_digits f (nat \<lfloor>\<bar>x\<bar> * 10 ^ f + 1 / 2\<rfloor> mod 10 ^ f))"
    by (rule has_decimals_point) (simp_all add: fixed_digits_digits)
  with assms show ?thesis
    unfolding fixed_text_def Let_def by (simp only: if_False append_assoc)
qed

text \<open>Evaluating the texts at concrete numbers.\<close>

lemma floor_rat_numeral: "\<lfloor>(numeral a :: rat) / numeral b\<rfloor> = numeral a div numeral b"
  using floor_divide_of_int_eq [of "numeral a" "numeral b", where ?'a = rat] by simp

lemma fixed_digits_numeral:
  "fixed_digits (numeral k) b = fixed_digits (pred_numeral k) (b div 10) @ [digit (b mod 10)]"
  by (simp only: numeral_eq_Suc [of k] fixed_digits.simps)

lemmas number_text_eval =
  fixed_text_def Let_def decimal_small decimal_large fixed_digits_numeral digit_def digits_def
  floor_rat_numeral

lemma fixed_text_examples:
  "fixed_text 5 3 = ''5.000''" "fixed_text 55 2 = ''55.00''" "fixed_text 500 1 = ''500.0''"
  "fixed_text (1 / 2) 3 = ''0.500''" "fixed_text 500 (Suc 0) = ''500.0''"
  by (simp_all add: number_text_eval)

lemma has_decimals_examples:
  "has_decimals 3 ''5.000''" "has_decimals 2 ''55.00''" "has_decimals (Suc 0) ''500.0''"
  "has_decimals 3 ''0.500''" "\<not> has_decimals (Suc 0) ''1e+21''" "\<not> has_decimals 3 ''-1e+21''"
  by (simp_all add: has_decimals_def fraction_part_def digits_def)

lemma read_decimal_examples:
  "read_decimal ''5.000'' = 5" "read_decimal ''55.00'' = 55" "read_decimal ''500.0'' = 500"
  "read_decimal ''0.500'' = 1 / 2"
  by (simp_all add: read_decimal_def natural_def digit_value_def digits_def)

lemma example_numberToString_values:
  "example_numberToString (Fin 1000000000000000000000) = ''1e+21''"
  "example_numberToString (Fin (- 1000000000000000000000)) = ''-1e+21''"
  "example_numberToString (Fin (1 / 2)) = ''0.5''"
  "example_numberToString (Fin 2048) = ''2048''"
  "example_numberToString (Fin 2) = ''2''"
  "example_numberToString (Fin 0) = ''0''"
  by (simp_all add: example_numberToString_def decimal_small decimal_large digit_def digits_def)

lemma example_parseFloat_values:
  "example_parseFloat ''0.5'' = Fin (1 / 2)"
  "example_parseFloat ''-1e+21'' = Fin (- 1000000000000000000000)"
  "example_parseFloat ''2048'' = Fin 2048"
  "example_parseFloat ''0'' = Fin 0"
  by (simp_all add: example_parseFloat_def natural_def digit_value_def digits_def)

section \<open>Properties of the value-axis ticks and the tooltips\<close>

text \<open>
  Claim C8, with the bound it needs. On a decimal axis the tick of a finite value \<open>x\<close> below
  \<open>10^21\<close> in magnitude is the number 0 for \<open>x = 0\<close>, and otherwise the text of \<open>x\<close> in fixed
  notation with three decimals for \<open>x < 10\<close>, two for \<open>10 \<le> x < 100\<close> and one from 100 on.
  Each of these texts ends in a point followed by exactly that many digits, and reads
  back as the multiple of \<open>10^-f\<close> nearest to \<open>x\<close> (the one larger in magnitude on a tie).
\<close>

theorem cpuOptions_ticks_callback_precision:
  assumes "\<bar>x\<bar> < 10 ^ 21"
  shows "cpuOptions_ticks_callback numberToString (Fin x) =
           (if x = 0 then Num (Fin 0)
            else if x < 10 then Str (fixed_text x 3)
            else if x < 100 then Str (fixed_text x 2)
            else Str (fixed_text x 1))
         \<and> has_decimals 3 (fixed_text x 3) \<and> has_decimals 2 (fixed_text x 2)
         \<and> has_decimals 1 (fixed_text x 1)
         \<and> (\<forall>f. read_decimal (fixed_text x f) =
                  (if x < 0 then - 1 else 1) * of_int \<lfloor>\<bar>x\<bar> * 10 ^ f + 1 / 2\<rfloor> / 10 ^ f)"
proof -
  have "toFixed numberToString (Fin x) f = fixed_text x f" for f
    using assms by (rule toFixed_fixed_text)
  then have "cpuOptions_ticks_callback numberToString (Fin x) =
           (if x = 0 then Num (Fin 0)
            else if x < 10 then Str (fixed_text x 3)
            else if x < 100 then Str (fixed_text x 2)
            else Str (fixed_text x 1))"
    by (simp add: cpuOptions_ticks_callback_def)
  moreover have "has_decimals 3 (fixed_text x 3)" "has_decimals 2 (fixed_text x 2)"
    "has_decimals 1 (fixed_text x 1)"
    by (simp_all add: has_decimals_fixed_text)
  ultimately show ?thesis
    by (simp only: read_decimal_fixed_text simp_thms)
qed

theorem cpuOptions_ticks_callback_precision_witness:
  "\<bar>5 :: rat\<bar> < 10 ^ 21 \<and> \<bar>55 :: rat\<bar> < 10 ^ 21 \<and> \<bar>500 :: rat\<bar> < 10 ^ 21
   \<and> cpuOptions_ticks_callback example_numberToString (Fin 5) = Str ''5.000''
   \<and> cpuOptions_ticks_callback example_numberToString (Fin 55) = Str ''55.00''
   \<and> cpuOptions_ticks_callback example_numberToString (Fin 500) = Str ''500.0''
   \<and> has_decimals 3 ''5.000'' \<and> has_decimals 2 ''55.00'' \<and> has_decimals 1 ''500.0''
   \<and> read_decimal ''55.00'' = 55"
  using cpuOptions_ticks_callback_precision [of 5 example_numberToString]
    cpuOptions_ticks_callback_precision [of 55 example_numberToString]
    cpuOptions_ticks_callback_precision [of 500 example_numberToString]
  by (simp add: fixed_text_examples read_decimal_examples has_decimals_examples)

text \<open>
  The claim as worded, for every value, fails from \<open>10^21\<close> on: there \<open>toFixed\<close> gives the
  text of \<open>Number::toString\<close>, which is in exponent notation, and the tick of \<open>10^21\<close> is
  \<open>1e+21\<close>, a text without decimals.
\<close>

theorem cpuOptions_ticks_callback_exponent:
  "cpuOptions_ticks_callback example_numberToString (Fin (10 ^ 21)) = Str ''1e+21''
   \<and> \<not> has_decimals 1 ''1e+21''"
  by (simp add: cpuOptions_ticks_callback_def toFixed_def example_numberToString_values
      has_decimals_examples)

text \<open>
  Claim C7, with the bound it needs. On a byte axis, when the tick value reads as the
  finite number \<open>x\<close> above \<open>-10^21\<close>, the tick is the number 0 for \<open>x = 0\<close>, the text of \<open>x\<close>
  in fixed notation with three decimals for any other \<open>x\<close> below 1, and from 1 on the text
  the byte-unit scaler returns for \<open>x\<close>, called without a precision. The text with three
  decimals ends in a point and exactly three digits, reads back as the multiple of
  \<open>1/1000\<close> nearest to \<open>x\<close>, and is \<open>0.500\<close> for one half. The scaler modelled from the spec
  gives \<open>2 KB\<close> for 2048.
\<close>

theorem memoryOptions_ticks_callback_precision:
  assumes "(case v of S s \<Rightarrow> parseFloat s | N m \<Rightarrow> parseFloat (numberToString m)) = Fin x"
    and "- (10 ^ 21) < x"
  shows "memoryOptions_ticks_callback numberToString parseFloat bytesToUnits v =
           (if x = 0 then Num (Fin 0)
            else if x < 1 then Str (fixed_text x 3)
            else Str (bytesToUnits (Fin x) None))
         \<and> has_decimals 3 (fixed_text x 3)
         \<and> read_decimal (fixed_text x 3) = (if x < 0 then - 1 else 1) * of_int \<lfloor>\<bar>x\<bar> * 1000 + 1 / 2\<rfloor> / 1000
         \<and> fixed_text (1 / 2) 3 = ''0.500''
         \<and> (numberToString (Fin 2) = ''2'' \<longrightarrow>
              utils_bytesToUnits numberToString toPrecision (Fin 2048) None = ''2 KB'')"
proof -
  from assms(1) have parsed: "parseFloat (js_String numberToString v) = Fin x"
    by (cases v) (simp_all add: js_String_def)
  have "toFixed numberToString (Fin x) 3 = fixed_text x 3" if "x < 1"
  proof (rule toFixed_fixed_text)
    from that assms(2) show "\<bar>x\<bar> < 10 ^ 21" by (simp add: abs_less_iff)
  qed
  with parsed have "memoryOptions_ticks_callback numberToString parseFloat bytesToUnits v =
           (if x = 0 then Num (Fin 0)
            else if x < 1 then Str (fixed_text x 3)
            else Str (bytesToUnits (Fin x) None))"
    by (simp add: memoryOptions_ticks_callback_def)
  moreover have "has_decimals 3 (fixed_text x 3)"
    by (simp add: has_decimals_fixed_text)
  moreover have "read_decimal (fixed_text x 3) =
      (if x < 0 then - 1 else 1) * of_int \<lfloor>\<bar>x\<bar> * 1000 + 1 / 2\<rfloor> / 1000"
    using read_decimal_fixed_text [of x 3] by simp
  moreover have "numberToString (Fin 2) = ''2'' \<longrightarrow>
      utils_bytesToUnits numberToString toPrecision (Fin 2048) None = ''2 KB''"
    by (simp add: utils_bytesToUnits_def)
  ultimately show ?thesis
    by (simp only: fixed_text_examples simp_thms)
qed

theorem memoryOptions_ticks_callback_precision_witness:
  "memoryOptions_ticks_callback example_numberToString example_parseFloat
     (utils_bytesToUnits example_numberToString (\<lambda>v p. '''')) (N (Fin (1 / 2))) = Str ''0.500''
   \<and> memoryOptions_ticks_callback example_numberToString example_parseFloat
     (utils_bytesToUnits example_numberToString (\<lambda>v p. '''')) (N (Fin 2048)) = Str ''2 KB''
   \<and> memoryOptions_ticks_callback example_numberToString example_parseFloat
     (utils_bytesToUnits example_numberToString (\<lambda>v p. '''')) (S ''0'') = Num (Fin 0)
   \<and> has_decimals 3 ''0.500'' \<and> read_decimal ''0.500'' = 1 / 2"
  using memoryOptions_ticks_callback_precision
      [where v = "N (Fin (1 / 2))" and parseFloat = example_parseFloat
         and numberToString = example_numberToString and x = "1 / 2"
         and bytesToUnits = "utils_bytesToUnits example_numberToString (\<lambda>v p. '''')"
         and toPrecision = "\<lambda>v p. ''''"]
    memoryOptions_ticks_callback_precision
      [where v = "N (Fin 2048)" and parseFloat = example_parseFloat
         and numberToString = example_numberToString and x = "2048"
         and bytesToUnits = "utils_bytesToUnits example_numberToString (\<lambda>v p. '''')"
         and toPrecision = "\<lambda>v p. ''''"]
    memoryOptions_ticks_callback_precision
      [where v = "S ''0''" and parseFloat = example_parseFloat
         and numberToString = example_numberToString and x = "0"
         and bytesToUnits = "utils_bytesToUnits example_numberToString (\<lambda>v p. '''')"
         and toPrecision = "\<lambda>v p. ''''"]
  by (simp add: example_numberToString_values example_parseFloat_values fixed_text_examples
      has_decimals_examples read_decimal_examples)

text \<open>
  The claim as worded, for every value, fails at \<open>-10^21\<close> and below: such a value is below
  1, and \<open>toFixed(3)\<close> gives its exponent notation, \<open>-1e+21\<close>, whatever the scaler is.
\<close>

theorem memoryOptions_ticks_callback_exponent:
  "(\<forall>bytesToUnits.
      memoryOptions_ticks_callback example_numberToString example_parseFloat bytesToUnits
        (N (Fin (- (10 ^ 21)))) = Str ''-1e+21'')
   \<and> \<not> has_decimals 3 ''-1e+21''"
  by (simp add: memoryOptions_ticks_callback_def toFixed_def js_String_def
      example_numberToString_values example_parseFloat_values has_decimals_examples)

text \<open>
  Claim C10. When the tick value of a byte axis reads as NaN or as zero, the callback
  returns the number 0 and no string.
\<close>

theorem memoryOptions_ticks_callback_falsy:
  assumes "parseFloat (js_String numberToString v) = NaN
           \<or> parseFloat (js_String numberToString v) = Fin 0"
  shows "memoryOptions_ticks_callback numberToString parseFloat bytesToUnits v = Num (Fin 0)"
  using assms by (auto simp: memoryOptions_ticks_callback_def)

theorem memoryOptions_ticks_callback_falsy_witness:
  "memoryOptions_ticks_callback (\<lambda>n. ''NaN'') (\<lambda>s. NaN) (\<lambda>n p. ''?'') (S ''abc'') = Num (Fin 0)
   \<and> memoryOptions_ticks_callback (\<lambda>n. ''NaN'') (\<lambda>s. NaN) (\<lambda>n p. ''?'') (N NaN) = Num (Fin 0)"
  using memoryOptions_ticks_callback_falsy [of "\<lambda>s. NaN" "\<lambda>n. ''NaN''" "S ''abc''" "\<lambda>n p. ''?''"]
    memoryOptions_ticks_callback_falsy [of "\<lambda>s. NaN" "\<lambda>n. ''NaN''" "N NaN" "\<lambda>n p. ''?''"]
  by simp

text \<open>
  Claim C4. For the first hovered item, with \<open>t\<close> the time its label stands for: the title
  is empty when \<open>t\<close> is strictly after the wall clock, and is the text of the label itself
  when \<open>t\<close> is at or before it.
\<close>

theorem tooltips_title_future:
  assumes "Date_getTime Date_parse (xLabel item) = Fin t"
  shows "tooltips_title numberToString Date_parse now (item # rest) =
           Inr (if of_int now < t then '''' else js_String numberToString (xLabel item))"
  using assms by (simp add: tooltips_title_def)

theorem tooltips_title_future_witness:
  "tooltips_title (\<lambda>n. ''?'') (\<lambda>s. if s = ''2030'' then Fin 1893456000000 else Fin 0) 1700000000000
     [\<lparr>xLabel = S ''2030'', tip_datasetIndex = 0, tip_index = 0\<rparr>] = Inr ''''
   \<and> tooltips_title (\<lambda>n. ''?'') (\<lambda>s. if s = ''2030'' then Fin 1893456000000 else Fin 0) 1700000000000
     [\<lparr>xLabel = S ''1970'', tip_datasetIndex = 0, tip_index = 0\<rparr>] = Inr ''1970''"
  using tooltips_title_future [of "\<lambda>s. if s = ''2030'' then Fin 1893456000000 else Fin 0"
      "\<lparr>xLabel = S ''2030'', tip_datasetIndex = 0, tip_index = 0\<rparr>" 1893456000000 "\<lambda>n. ''?''" 1700000000000 "[]"]
    tooltips_title_future [of "\<lambda>s. if s = ''2030'' then Fin 1893456000000 else Fin 0"
      "\<lparr>xLabel = S ''1970'', tip_datasetIndex = 0, tip_index = 0\<rparr>" 0 "\<lambda>n. ''?''" 1700000000000 "[]"]
  by (simp add: Date_getTime_def js_String_def)



section \<open>Properties of the fill colour\<close>

text \<open>
  The colour that is serialised has the model and the channels of the border colour and
  the opacity one fifth, whatever the opacity of the border colour was; setting that
  opacity a second time changes nothing. What the string is, and what colour it reads
  back as, is the library's.
\<close>

lemma getBarColor_alpha:
  assumes "Color_new (borderColor dataset) = Some c"
  shows "getBarColor Color_new Color_string dataset = Inr (Color_string (Color_alpha c (2 / 10)))"
    and "color_model (Color_alpha c (2 / 10)) = color_model c"
    and "color_channels (Color_alpha c (2 / 10)) = color_channels c"
    and "valpha (Color_alpha c (2 / 10)) = 1 / 5"
  using assms by (simp_all add: getBarColor_def Color_alpha_def)

lemma Color_alpha_twice: "Color_alpha (Color_alpha c a) a = Color_alpha c a"
  by (simp add: Color_alpha_def)

section \<open>Properties of the merge\<close>






lemma lookup_None [simp]: "lookup None p = None"
  by (cases p) simp_all


























section \<open>Properties of the component\<close>



end
